theory Spec2Isabelle
  imports Main
begin

section \<open>The API server root of juju-core (state/apiserver/root.go)\<close>

text \<open>
  The root is the object a connection talks to after login. Its methods hand out the
  API facades and the watcher wrappers, gate them by the kind of the authenticated
  entity, and tear the connection's resources down. Every method has the receiver
  \<^verbatim>\<open>r *srvRoot\<close>; it is modelled as a function that takes the root and returns its
  result together with the root after the call.
\<close>

subsection \<open>Errors\<close>

text \<open>
  The three errors of package \<^verbatim>\<open>common\<close> that root.go returns; \<open>ErrOther\<close> stands
  for any other Go error value (what the Stop of a resource may return).
\<close>

datatype error = ErrPerm | ErrBadId | ErrUnknownWatcher | ErrOther string

subsection \<open>Entities\<close>

text \<open>
  Modelled from the spec: the declarations of \<^verbatim>\<open>state.TaggedAuthenticator\<close> and of
  its implementations are not in root.go. An entity is an authenticated principal with
  an identity tag: a machine controller (with its jobs), a unit controller, or an
  interactive user. The root is built after login, so its entity is never nil.
\<close>

datatype MachineJob = JobHostUnits | JobManageEnviron | JobManageState

datatype entity =
    Machine string "MachineJob list"
  | Unit string
  | User string

primrec Tag :: "entity \<Rightarrow> string" where
  "Tag (Machine t js) = t"
| "Tag (Unit t) = t"
| "Tag (User t) = t"

text \<open>
  Modelled from the spec: \<^verbatim>\<open>isAgent\<close> is not in root.go. The entity is classified
  into exactly one of agent (machine and unit controllers) and client (interactive
  users).
\<close>

primrec isAgent :: "entity \<Rightarrow> bool" where
  "isAgent (Machine t js) = True"
| "isAgent (Unit t) = True"
| "isAgent (User t) = False"

text \<open>
  Modelled from the spec: \<^verbatim>\<open>isMachineWithJob\<close> is not in root.go. It is the
  privileged-role membership query: the entity is a machine and runs the given job.
\<close>

primrec isMachineWithJob :: "entity \<Rightarrow> MachineJob \<Rightarrow> bool" where
  "isMachineWithJob (Machine t js) j = (j \<in> set js)"
| "isMachineWithJob (Unit t) j = False"
| "isMachineWithJob (User t) j = False"

subsection \<open>Resources\<close>

text \<open>
  Modelled from the spec: package \<^verbatim>\<open>common\<close> (type \<^verbatim>\<open>Resources\<close>) and the watcher
  types are not in root.go. A resource is anything with a Stop operation. Its dynamic
  type decides the type assertions of the watcher accessors: it implements
  \<^verbatim>\<open>state.NotifyWatcher\<close>, or \<^verbatim>\<open>state.StringsWatcher\<close>, or it is a
  \<^verbatim>\<open>*multiwatcher.Watcher\<close>, or it is none of the three. \<open>handle\<close> is the identity
  of the underlying object, \<open>stopError\<close> is what its Stop returns.
\<close>

datatype category = NotifyCat | StringsCat | MultiCat | OtherCat

record resource =
  handle :: nat
  category :: category
  stopError :: "error option"

text \<open>
  The registry maps string ids to resources. It is kept as an association list, so that
  StopAll can visit every entry; \<open>Get\<close> is the lookup, with \<open>None\<close> for Go's nil.
\<close>

type_synonym Resources = "(string \<times> resource) list"

definition NewResources :: "Resources" where
  "NewResources = []"

definition Get :: "Resources \<Rightarrow> string \<Rightarrow> resource option" where
  "Get rs id' = map_of rs id'"

text \<open>
  The world outside the root: the handles whose Stop has been called, and the errors
  logged. A resource runs until its Stop is called.
\<close>

record world =
  stopped :: "nat list"
  logged :: "error list"

definition Stop :: "resource \<Rightarrow> world \<Rightarrow> error option \<times> world" where
  "Stop x w = (stopError x, w\<lparr>stopped := handle x # stopped w\<rparr>)"

definition running :: "world \<Rightarrow> resource \<Rightarrow> bool" where
  "running w x = (handle x \<notin> set (stopped w))"

text \<open>
  Modelled from the spec: \<^verbatim>\<open>Resources.StopAll\<close> removes and stops every tracked
  resource. Each stop is attempted on its own; a failure is logged and not propagated,
  and the rest is still drained.
\<close>

primrec stopEach :: "(string \<times> resource) list \<Rightarrow> world \<Rightarrow> world" where
  "stopEach [] w = w"
| "stopEach (e # es) w =
     (case Stop (snd e) w of
        (None, w') \<Rightarrow> stopEach es w'
      | (Some err, w') \<Rightarrow> stopEach es (w'\<lparr>logged := logged w' @ [err]\<rparr>))"

definition StopAll :: "Resources \<Rightarrow> world \<Rightarrow> Resources \<times> world" where
  "StopAll rs w = (NewResources, stopEach rs w)"

subsection \<open>The root\<close>

record Server =
  state :: nat

text \<open>
  The embedded \<^verbatim>\<open>clientAPI\<close> is a facade of its own and plays no part in the methods
  of root.go; the model leaves it out.
\<close>

record srvRoot =
  srv :: Server
  resources :: Resources
  entity :: entity

definition newSrvRoot :: "Server \<Rightarrow> entity \<Rightarrow> srvRoot" where
  "newSrvRoot s e = \<lparr>srv = s, resources = NewResources, entity = e\<rparr>"

definition Kill :: "srvRoot \<Rightarrow> world \<Rightarrow> srvRoot \<times> world" where
  "Kill r w =
     (case StopAll (resources r) w of
        (rs', w') \<Rightarrow> (r\<lparr>resources := rs'\<rparr>, w'))"

definition requireAgent :: "srvRoot \<Rightarrow> error option \<times> srvRoot" where
  "requireAgent r = (if \<not> isAgent (entity r) then (Some ErrPerm, r) else (None, r))"

definition requireClient :: "srvRoot \<Rightarrow> error option \<times> srvRoot" where
  "requireClient r = (if isAgent (entity r) then (Some ErrPerm, r) else (None, r))"

subsection \<open>The authorizer\<close>

definition AuthMachineAgent :: "srvRoot \<Rightarrow> bool \<times> srvRoot" where
  "AuthMachineAgent r =
     (case entity r of
        Machine t js \<Rightarrow> (True, r)
      | Unit t \<Rightarrow> (False, r)
      | User t \<Rightarrow> (False, r))"

definition AuthOwner :: "srvRoot \<Rightarrow> string \<Rightarrow> bool \<times> srvRoot" where
  "AuthOwner r tag = (Tag (entity r) = tag, r)"

definition AuthEnvironManager :: "srvRoot \<Rightarrow> bool \<times> srvRoot" where
  "AuthEnvironManager r = (isMachineWithJob (entity r) JobManageEnviron, r)"

definition AuthClient :: "srvRoot \<Rightarrow> bool \<times> srvRoot" where
  "AuthClient r = (\<not> isAgent (entity r), r)"

definition GetAuthTag :: "srvRoot \<Rightarrow> string \<times> srvRoot" where
  "GetAuthTag r = (Tag (entity r), r)"

text \<open>
  The root is handed to the facade constructors as their \<^verbatim>\<open>common.Authorizer\<close>: the
  interface of the five methods above. A facade sees the root only through them.
\<close>

record Authorizer =
  authMachineAgent :: bool
  authOwner :: "string \<Rightarrow> bool"
  authEnvironManager :: bool
  authClient :: bool
  getAuthTag :: string

definition authorizer :: "srvRoot \<Rightarrow> Authorizer" where
  "authorizer r =
     \<lparr>authMachineAgent = fst (AuthMachineAgent r),
      authOwner = (\<lambda>tag. fst (AuthOwner r tag)),
      authEnvironManager = fst (AuthEnvironManager r),
      authClient = fst (AuthClient r),
      getAuthTag = fst (GetAuthTag r)\<rparr>"

subsection \<open>Facades\<close>

text \<open>
  Modelled from the spec: the facade constructors (\<^verbatim>\<open>machine.NewMachinerAPI\<close>,
  \<^verbatim>\<open>machine.NewAgentAPI\<close>, \<^verbatim>\<open>deployer.NewDeployerAPI\<close>,
  \<^verbatim>\<open>upgrader.NewUpgraderAPI\<close>) are not in root.go. A factory takes the backing-store
  handle, the registry and the authorization policy, and gives the facade or an error.
  The four facades are agent-only: the factory applies the role gate and rejects a
  client with permission denied. Constructing the facade is the only effect; the
  registry is populated only when the facade later creates watchers.
\<close>

datatype facade =
    MachinerAPI nat Authorizer
  | AgentAPI nat Authorizer
  | DeployerAPI nat Authorizer
  | UpgraderAPI nat Authorizer

definition NewMachinerAPI :: "nat \<Rightarrow> Resources \<Rightarrow> Authorizer \<Rightarrow> error + facade" where
  "NewMachinerAPI st rs a = (if authClient a then Inl ErrPerm else Inr (MachinerAPI st a))"

definition NewAgentAPI :: "nat \<Rightarrow> Authorizer \<Rightarrow> error + facade" where
  "NewAgentAPI st a = (if authClient a then Inl ErrPerm else Inr (AgentAPI st a))"

definition NewDeployerAPI :: "nat \<Rightarrow> Resources \<Rightarrow> Authorizer \<Rightarrow> error + facade" where
  "NewDeployerAPI st rs a = (if authClient a then Inl ErrPerm else Inr (DeployerAPI st a))"

definition NewUpgraderAPI :: "nat \<Rightarrow> Resources \<Rightarrow> Authorizer \<Rightarrow> error + facade" where
  "NewUpgraderAPI st rs a = (if authClient a then Inl ErrPerm else Inr (UpgraderAPI st a))"

definition Machiner :: "srvRoot \<Rightarrow> string \<Rightarrow> (error + facade) \<times> srvRoot" where
  "Machiner r id' =
     (if id' \<noteq> [] then (Inl ErrBadId, r)
      else (NewMachinerAPI (state (srv r)) (resources r) (authorizer r), r))"

definition MachineAgent :: "srvRoot \<Rightarrow> string \<Rightarrow> (error + facade) \<times> srvRoot" where
  "MachineAgent r id' =
     (if id' \<noteq> [] then (Inl ErrBadId, r)
      else (NewAgentAPI (state (srv r)) (authorizer r), r))"

definition Deployer :: "srvRoot \<Rightarrow> string \<Rightarrow> (error + facade) \<times> srvRoot" where
  "Deployer r id' =
     (if id' \<noteq> [] then (Inl ErrBadId, r)
      else (NewDeployerAPI (state (srv r)) (resources r) (authorizer r), r))"

definition Upgrader :: "srvRoot \<Rightarrow> string \<Rightarrow> (error + facade) \<times> srvRoot" where
  "Upgrader r id' =
     (if id' \<noteq> [] then (Inl ErrBadId, r)
      else (NewUpgraderAPI (state (srv r)) (resources r) (authorizer r), r))"

subsection \<open>Watcher wrappers\<close>

text \<open>
  The type assertions on what \<open>Get\<close> returns. A nil interface value and a value of
  another dynamic type both fail the assertion.
\<close>

definition assertCategory :: "category \<Rightarrow> resource option \<Rightarrow> resource option" where
  "assertCategory c x =
     (case x of
        None \<Rightarrow> None
      | Some w \<Rightarrow> if category w = c then Some w else None)"

text \<open>
  A wrapper holds the watcher and its id. Its third field in the source points back to
  the root's registry; the model has that one registry only, in the root, so the
  wrapper carries no copy of it.
\<close>

datatype srvNotifyWatcher = SrvNotifyWatcher resource string
datatype srvStringsWatcher = SrvStringsWatcher resource string
datatype srvClientAllWatcher = SrvClientAllWatcher resource string

definition NotifyWatcher :: "srvRoot \<Rightarrow> string \<Rightarrow> (error + srvNotifyWatcher) \<times> srvRoot" where
  "NotifyWatcher r id' =
     (case requireAgent r of
        (Some err, r1) \<Rightarrow> (Inl err, r1)
      | (None, r1) \<Rightarrow>
          (case assertCategory NotifyCat (Get (resources r1) id') of
             None \<Rightarrow> (Inl ErrUnknownWatcher, r1)
           | Some watcher \<Rightarrow> (Inr (SrvNotifyWatcher watcher id'), r1)))"

definition StringsWatcher :: "srvRoot \<Rightarrow> string \<Rightarrow> (error + srvStringsWatcher) \<times> srvRoot" where
  "StringsWatcher r id' =
     (case requireAgent r of
        (Some err, r1) \<Rightarrow> (Inl err, r1)
      | (None, r1) \<Rightarrow>
          (case assertCategory StringsCat (Get (resources r1) id') of
             None \<Rightarrow> (Inl ErrUnknownWatcher, r1)
           | Some watcher \<Rightarrow> (Inr (SrvStringsWatcher watcher id'), r1)))"

definition AllWatcher :: "srvRoot \<Rightarrow> string \<Rightarrow> (error + srvClientAllWatcher) \<times> srvRoot" where
  "AllWatcher r id' =
     (case requireClient r of
        (Some err, r1) \<Rightarrow> (Inl err, r1)
      | (None, r1) \<Rightarrow>
          (case assertCategory MultiCat (Get (resources r1) id') of
             None \<Rightarrow> (Inl ErrUnknownWatcher, r1)
           | Some watcher \<Rightarrow> (Inr (SrvClientAllWatcher watcher id'), r1)))"

subsection \<open>The pinger\<close>

datatype srvPinger = SrvPinger

definition Pinger :: "srvRoot \<Rightarrow> string \<Rightarrow> (error + srvPinger) \<times> srvRoot" where
  "Pinger r id' = (Inr SrvPinger, r)"

text \<open>Ping has an empty body: whatever the state around it, it is left as it was.\<close>

definition Ping :: "srvPinger \<Rightarrow> 's \<Rightarrow> 's" where
  "Ping p s = s"

section \<open>Properties\<close>

subsection \<open>The role gates\<close>

text \<open>
  C4. For every authenticated entity, exactly one of requireAgent and requireClient
  succeeds (returns nil), and the other returns permission denied.
\<close>

theorem require_exactly_one:
  "(fst (requireAgent r) = None \<and> fst (requireClient r) = Some ErrPerm) \<or>
   (fst (requireAgent r) = Some ErrPerm \<and> fst (requireClient r) = None)"
  by (simp add: requireAgent_def requireClient_def)

text \<open>
  C10. For every authenticated entity, AuthClient returns true exactly when
  requireClient succeeds (returns nil), and exactly when requireAgent fails with
  permission denied.
\<close>

theorem AuthClient_iff_require:
  "fst (AuthClient r) = (fst (requireClient r) = None) \<and>
   fst (AuthClient r) = (fst (requireAgent r) = Some ErrPerm)"
  by (simp add: AuthClient_def requireAgent_def requireClient_def)


subsection \<open>The reserved identifier of the facade accessors\<close>

text \<open>
  C1, as the root has it. Each of the facade accessors Machiner, MachineAgent, Deployer
  and Upgrader, called with a non-empty placeholder id, returns the bad-identifier error
  and leaves the root, and so its registry, as it was. The check comes before the
  constructor is called, so this holds for every entity.
\<close>

theorem facade_nonempty_id_BadId:
  assumes "id' \<noteq> []"
  shows "Machiner r id' = (Inl ErrBadId, r) \<and> MachineAgent r id' = (Inl ErrBadId, r) \<and>
         Deployer r id' = (Inl ErrBadId, r) \<and> Upgrader r id' = (Inl ErrBadId, r)"
  using assms by (simp add: Machiner_def MachineAgent_def Deployer_def Upgrader_def)

theorem facade_nonempty_id_BadId_witness:
  "''nonempty'' \<noteq> [] \<and>
   Machiner (newSrvRoot \<lparr>state = 0\<rparr> (Machine ''machine-0'' [JobHostUnits])) ''nonempty''
     = (Inl ErrBadId, newSrvRoot \<lparr>state = 0\<rparr> (Machine ''machine-0'' [JobHostUnits])) \<and>
   Upgrader (newSrvRoot \<lparr>state = 0\<rparr> (User ''user-admin'')) ''nonempty''
     = (Inl ErrBadId, newSrvRoot \<lparr>state = 0\<rparr> (User ''user-admin''))"
  using facade_nonempty_id_BadId
          [of "''nonempty''" "newSrvRoot \<lparr>state = 0\<rparr> (Machine ''machine-0'' [JobHostUnits])"]
        facade_nonempty_id_BadId
          [of "''nonempty''" "newSrvRoot \<lparr>state = 0\<rparr> (User ''user-admin'')"]
  by simp

text \<open>
  C1 as stated fails at the Pinger accessor: it takes the same placeholder argument,
  ignores it, and succeeds on a non-empty id.
\<close>

theorem Pinger_nonempty_id_counterexample:
  "''nonempty'' \<noteq> [] \<and>
   fst (Pinger (newSrvRoot \<lparr>state = 0\<rparr> (Machine ''machine-0'' [JobHostUnits])) ''nonempty'')
     = Inr SrvPinger \<and>
   fst (Pinger (newSrvRoot \<lparr>state = 0\<rparr> (Machine ''machine-0'' [JobHostUnits])) ''nonempty'')
     \<noteq> Inl ErrBadId"
  by (simp add: Pinger_def)

subsection \<open>The pinger\<close>

text \<open>
  C9. For every id string, empty or not, and every entity, the Pinger accessor succeeds:
  it returns a pinger and no error, never bad identifier and never permission denied,
  and leaves the root as it was. The Ping operation of the pinger does nothing.
\<close>

theorem Pinger_always_succeeds:
  "fst (Pinger r id') = Inr SrvPinger \<and>
   fst (Pinger r id') \<noteq> Inl ErrBadId \<and>
   fst (Pinger r id') \<noteq> Inl ErrPerm \<and>
   snd (Pinger r id') = r \<and>
   Ping p s = s"
  by (simp add: Pinger_def Ping_def)

subsection \<open>The authorization queries\<close>

text \<open>
  C8. The authorization queries AuthMachineAgent, AuthOwner, AuthEnvironManager,
  AuthClient and GetAuthTag are pure, for every entity and argument. Each is a total
  function that returns a plain value (there is no error result), and the root after
  the call is the root before it: entity, registry and server handle are unchanged.
\<close>

theorem auth_queries_pure:
  "snd (AuthMachineAgent r) = r \<and>
   snd (AuthOwner r tag) = r \<and>
   snd (AuthEnvironManager r) = r \<and>
   snd (AuthClient r) = r \<and>
   snd (GetAuthTag r) = r"
  by (simp add: AuthMachineAgent_def AuthOwner_def AuthEnvironManager_def AuthClient_def
      GetAuthTag_def split: entity.split)


subsection \<open>The watcher accessors\<close>

text \<open>
  What each watcher accessor returns, by cases on its role gate and on the lookup.
\<close>

lemma NotifyWatcher_cases:
  "NotifyWatcher r id' =
     (if \<not> isAgent (entity r) then (Inl ErrPerm, r)
      else case Get (resources r) id' of
             None \<Rightarrow> (Inl ErrUnknownWatcher, r)
           | Some w \<Rightarrow> if category w = NotifyCat then (Inr (SrvNotifyWatcher w id'), r)
                       else (Inl ErrUnknownWatcher, r))"
  by (simp add: NotifyWatcher_def requireAgent_def assertCategory_def split: option.split)

lemma StringsWatcher_cases:
  "StringsWatcher r id' =
     (if \<not> isAgent (entity r) then (Inl ErrPerm, r)
      else case Get (resources r) id' of
             None \<Rightarrow> (Inl ErrUnknownWatcher, r)
           | Some w \<Rightarrow> if category w = StringsCat then (Inr (SrvStringsWatcher w id'), r)
                       else (Inl ErrUnknownWatcher, r))"
  by (simp add: StringsWatcher_def requireAgent_def assertCategory_def split: option.split)

lemma AllWatcher_cases:
  "AllWatcher r id' =
     (if isAgent (entity r) then (Inl ErrPerm, r)
      else case Get (resources r) id' of
             None \<Rightarrow> (Inl ErrUnknownWatcher, r)
           | Some w \<Rightarrow> if category w = MultiCat then (Inr (SrvClientAllWatcher w id'), r)
                       else (Inl ErrUnknownWatcher, r))"
  by (simp add: AllWatcher_def requireClient_def assertCategory_def split: option.split)

text \<open>
  C2, as the root has it. When the authenticated entity is an agent and id X is
  registered as a notify watcher, the request for the notify wrapper of X succeeds and
  gives the wrapper of that watcher, and the request for the all-watcher wrapper of X
  fails with permission denied: AllWatcher is client-only, and its role gate comes
  before the lookup.
\<close>

theorem agent_notify_then_all:
  assumes "isAgent (entity r)"
    and "Get (resources r) x = Some w"
    and "category w = NotifyCat"
  shows "fst (NotifyWatcher r x) = Inr (SrvNotifyWatcher w x) \<and>
         fst (AllWatcher r x) = Inl ErrPerm"
  using assms by (simp add: NotifyWatcher_cases AllWatcher_cases)

theorem agent_notify_then_all_witness:
  "isAgent (entity \<lparr>srv = \<lparr>state = 0\<rparr>,
                    resources = [(''1'', \<lparr>handle = 7, category = NotifyCat, stopError = None\<rparr>)],
                    entity = Machine ''machine-0'' [JobHostUnits]\<rparr>) \<and>
   fst (NotifyWatcher \<lparr>srv = \<lparr>state = 0\<rparr>,
                    resources = [(''1'', \<lparr>handle = 7, category = NotifyCat, stopError = None\<rparr>)],
                    entity = Machine ''machine-0'' [JobHostUnits]\<rparr> ''1'')
     = Inr (SrvNotifyWatcher \<lparr>handle = 7, category = NotifyCat, stopError = None\<rparr> ''1'') \<and>
   fst (AllWatcher \<lparr>srv = \<lparr>state = 0\<rparr>,
                    resources = [(''1'', \<lparr>handle = 7, category = NotifyCat, stopError = None\<rparr>)],
                    entity = Machine ''machine-0'' [JobHostUnits]\<rparr> ''1'')
     = Inl ErrPerm"
  using agent_notify_then_all
          [of "\<lparr>srv = \<lparr>state = 0\<rparr>,
                resources = [(''1'', \<lparr>handle = 7, category = NotifyCat, stopError = None\<rparr>)],
                entity = Machine ''machine-0'' [JobHostUnits]\<rparr>"
              "''1''" "\<lparr>handle = 7, category = NotifyCat, stopError = None\<rparr>"]
  by (simp add: Get_def)

text \<open>
  C2 as stated fails: for a machine agent and an id registered as a notify watcher,
  AllWatcher returns permission denied, not unknown resource.
\<close>

theorem agent_AllWatcher_counterexample:
  "isAgent (Machine ''machine-0'' [JobHostUnits]) \<and>
   Get [(''1'', \<lparr>handle = 7, category = NotifyCat, stopError = None\<rparr>)] ''1''
     = Some \<lparr>handle = 7, category = NotifyCat, stopError = None\<rparr> \<and>
   fst (AllWatcher \<lparr>srv = \<lparr>state = 0\<rparr>,
                    resources = [(''1'', \<lparr>handle = 7, category = NotifyCat, stopError = None\<rparr>)],
                    entity = Machine ''machine-0'' [JobHostUnits]\<rparr> ''1'')
     = Inl ErrPerm \<and>
   fst (AllWatcher \<lparr>srv = \<lparr>state = 0\<rparr>,
                    resources = [(''1'', \<lparr>handle = 7, category = NotifyCat, stopError = None\<rparr>)],
                    entity = Machine ''machine-0'' [JobHostUnits]\<rparr> ''1'')
     \<noteq> Inl ErrUnknownWatcher"
  by (simp add: AllWatcher_def requireClient_def Get_def)

text \<open>
  C3, as the root has it. For each watcher accessor and every id: if the registry has no
  resource under the id, or the resource found is not of the accessor's category, the
  accessor returns no wrapper. It returns unknown resource when the entity passes the
  accessor's role gate (an agent for NotifyWatcher and StringsWatcher, a client for
  AllWatcher), and permission denied when it does not. A wrapper that an accessor does
  return holds the resource registered under that id, and that resource is of the
  accessor's category.
\<close>

theorem watcher_miss_or_mismatch:
  "((Get (resources r) x = None \<or> (\<exists>w. Get (resources r) x = Some w \<and> category w \<noteq> NotifyCat))
      \<longrightarrow> fst (NotifyWatcher r x)
            = Inl (if isAgent (entity r) then ErrUnknownWatcher else ErrPerm)) \<and>
   ((Get (resources r) x = None \<or> (\<exists>w. Get (resources r) x = Some w \<and> category w \<noteq> StringsCat))
      \<longrightarrow> fst (StringsWatcher r x)
            = Inl (if isAgent (entity r) then ErrUnknownWatcher else ErrPerm)) \<and>
   ((Get (resources r) x = None \<or> (\<exists>w. Get (resources r) x = Some w \<and> category w \<noteq> MultiCat))
      \<longrightarrow> fst (AllWatcher r x)
            = Inl (if isAgent (entity r) then ErrPerm else ErrUnknownWatcher)) \<and>
   (\<forall>w i. fst (NotifyWatcher r x) = Inr (SrvNotifyWatcher w i)
      \<longrightarrow> i = x \<and> Get (resources r) x = Some w \<and> category w = NotifyCat) \<and>
   (\<forall>w i. fst (StringsWatcher r x) = Inr (SrvStringsWatcher w i)
      \<longrightarrow> i = x \<and> Get (resources r) x = Some w \<and> category w = StringsCat) \<and>
   (\<forall>w i. fst (AllWatcher r x) = Inr (SrvClientAllWatcher w i)
      \<longrightarrow> i = x \<and> Get (resources r) x = Some w \<and> category w = MultiCat)"
proof (intro conjI)
  show "(Get (resources r) x = None \<or> (\<exists>w. Get (resources r) x = Some w \<and> category w \<noteq> NotifyCat))
      \<longrightarrow> fst (NotifyWatcher r x)
            = Inl (if isAgent (entity r) then ErrUnknownWatcher else ErrPerm)"
    by (auto simp: NotifyWatcher_cases)
  show "(Get (resources r) x = None \<or> (\<exists>w. Get (resources r) x = Some w \<and> category w \<noteq> StringsCat))
      \<longrightarrow> fst (StringsWatcher r x)
            = Inl (if isAgent (entity r) then ErrUnknownWatcher else ErrPerm)"
    by (auto simp: StringsWatcher_cases)
  show "(Get (resources r) x = None \<or> (\<exists>w. Get (resources r) x = Some w \<and> category w \<noteq> MultiCat))
      \<longrightarrow> fst (AllWatcher r x)
            = Inl (if isAgent (entity r) then ErrPerm else ErrUnknownWatcher)"
    by (auto simp: AllWatcher_cases)
  show "\<forall>w i. fst (NotifyWatcher r x) = Inr (SrvNotifyWatcher w i)
      \<longrightarrow> i = x \<and> Get (resources r) x = Some w \<and> category w = NotifyCat"
    by (auto simp: NotifyWatcher_cases split: if_splits option.splits)
  show "\<forall>w i. fst (StringsWatcher r x) = Inr (SrvStringsWatcher w i)
      \<longrightarrow> i = x \<and> Get (resources r) x = Some w \<and> category w = StringsCat"
    by (auto simp: StringsWatcher_cases split: if_splits option.splits)
  show "\<forall>w i. fst (AllWatcher r x) = Inr (SrvClientAllWatcher w i)
      \<longrightarrow> i = x \<and> Get (resources r) x = Some w \<and> category w = MultiCat"
    by (auto simp: AllWatcher_cases split: if_splits option.splits)
qed


theorem watcher_miss_or_mismatch_witness:
  "Get (resources \<lparr>srv = \<lparr>state = 0\<rparr>,
                    resources = [(''1'', \<lparr>handle = 7, category = NotifyCat, stopError = None\<rparr>)],
                    entity = Unit ''unit-wordpress-0''\<rparr>) ''2'' = None \<and>
   fst (NotifyWatcher \<lparr>srv = \<lparr>state = 0\<rparr>,
                    resources = [(''1'', \<lparr>handle = 7, category = NotifyCat, stopError = None\<rparr>)],
                    entity = Unit ''unit-wordpress-0''\<rparr> ''2'') = Inl ErrUnknownWatcher \<and>
   fst (AllWatcher \<lparr>srv = \<lparr>state = 0\<rparr>,
                    resources = [(''1'', \<lparr>handle = 7, category = NotifyCat, stopError = None\<rparr>)],
                    entity = Unit ''unit-wordpress-0''\<rparr> ''2'') = Inl ErrPerm \<and>
   fst (StringsWatcher \<lparr>srv = \<lparr>state = 0\<rparr>,
                    resources = [(''1'', \<lparr>handle = 7, category = NotifyCat, stopError = None\<rparr>)],
                    entity = Unit ''unit-wordpress-0''\<rparr> ''1'') = Inl ErrUnknownWatcher \<and>
   fst (AllWatcher \<lparr>srv = \<lparr>state = 0\<rparr>,
                    resources = [(''1'', \<lparr>handle = 7, category = NotifyCat, stopError = None\<rparr>)],
                    entity = User ''user-admin''\<rparr> ''1'') = Inl ErrUnknownWatcher"
proof -
  let ?n = "\<lparr>handle = 7, category = NotifyCat, stopError = None\<rparr>"
  let ?a = "\<lparr>srv = \<lparr>state = 0\<rparr>, resources = [(''1'', ?n)],
             entity = Unit ''unit-wordpress-0''\<rparr>"
  let ?c = "\<lparr>srv = \<lparr>state = 0\<rparr>, resources = [(''1'', ?n)], entity = User ''user-admin''\<rparr>"
  have miss: "Get (resources ?a) ''2'' = None"
    by (simp add: Get_def)
  have other_a: "\<exists>w. Get (resources ?a) ''1'' = Some w \<and> category w \<noteq> StringsCat"
    by (simp add: Get_def)
  have other_c: "\<exists>w. Get (resources ?c) ''1'' = Some w \<and> category w \<noteq> MultiCat"
    by (simp add: Get_def)
  note at_miss = watcher_miss_or_mismatch [of ?a "''2''"]
  note at_a = watcher_miss_or_mismatch [of ?a "''1''"]
  note at_c = watcher_miss_or_mismatch [of ?c "''1''"]
  have n: "fst (NotifyWatcher ?a ''2'') = Inl ErrUnknownWatcher"
    using at_miss [THEN conjunct1, THEN mp, OF disjI1, OF miss] by simp
  have al: "fst (AllWatcher ?a ''2'') = Inl ErrPerm"
    using at_miss [THEN conjunct2, THEN conjunct2, THEN conjunct1, THEN mp, OF disjI1, OF miss]
    by simp
  have s: "fst (StringsWatcher ?a ''1'') = Inl ErrUnknownWatcher"
    using at_a [THEN conjunct2, THEN conjunct1, THEN mp, OF disjI2, OF other_a] by simp
  have c: "fst (AllWatcher ?c ''1'') = Inl ErrUnknownWatcher"
    using at_c [THEN conjunct2, THEN conjunct2, THEN conjunct1, THEN mp, OF disjI2, OF other_c]
    by simp
  from miss n al s c show ?thesis by (intro conjI)
qed

text \<open>
  C3 as stated fails: for a client, the registry has nothing under the id, and
  NotifyWatcher returns permission denied, not unknown resource.
\<close>

theorem client_NotifyWatcher_counterexample:
  "Get (resources (newSrvRoot \<lparr>state = 0\<rparr> (User ''user-admin''))) ''1'' = None \<and>
   fst (NotifyWatcher (newSrvRoot \<lparr>state = 0\<rparr> (User ''user-admin'')) ''1'') = Inl ErrPerm \<and>
   fst (NotifyWatcher (newSrvRoot \<lparr>state = 0\<rparr> (User ''user-admin'')) ''1'')
     \<noteq> Inl ErrUnknownWatcher"
  by (simp add: NotifyWatcher_def requireAgent_def newSrvRoot_def NewResources_def Get_def)

subsection \<open>Failure leaves the root as it was\<close>

text \<open>
  C5. Whenever an accessor fails, with permission denied, bad identifier, unknown
  resource or any other error, the root after the call is the root before it: the
  registry is unchanged. The failing result is the error alone; it carries no facade
  and no wrapper. For the four facade accessors this rests on the constructors having
  no effect on the registry, which is how the spec has them.
\<close>

theorem accessor_failure_frame:
  "(fst (Machiner r x) = Inl e \<longrightarrow> snd (Machiner r x) = r) \<and>
   (fst (MachineAgent r x) = Inl e \<longrightarrow> snd (MachineAgent r x) = r) \<and>
   (fst (Deployer r x) = Inl e \<longrightarrow> snd (Deployer r x) = r) \<and>
   (fst (Upgrader r x) = Inl e \<longrightarrow> snd (Upgrader r x) = r) \<and>
   (fst (NotifyWatcher r x) = Inl e \<longrightarrow> snd (NotifyWatcher r x) = r) \<and>
   (fst (StringsWatcher r x) = Inl e \<longrightarrow> snd (StringsWatcher r x) = r) \<and>
   (fst (AllWatcher r x) = Inl e \<longrightarrow> snd (AllWatcher r x) = r)"
proof (intro conjI impI)
  show "snd (Machiner r x) = r"
    by (simp add: Machiner_def)
  show "snd (MachineAgent r x) = r"
    by (simp add: MachineAgent_def)
  show "snd (Deployer r x) = r"
    by (simp add: Deployer_def)
  show "snd (Upgrader r x) = r"
    by (simp add: Upgrader_def)
  show "snd (NotifyWatcher r x) = r"
    by (simp add: NotifyWatcher_cases split: option.split)
  show "snd (StringsWatcher r x) = r"
    by (simp add: StringsWatcher_cases split: option.split)
  show "snd (AllWatcher r x) = r"
    by (simp add: AllWatcher_cases split: option.split)
qed

theorem accessor_failure_frame_witness:
  "fst (Machiner \<lparr>srv = \<lparr>state = 0\<rparr>,
                  resources = [(''1'', \<lparr>handle = 7, category = NotifyCat, stopError = None\<rparr>)],
                  entity = User ''user-admin''\<rparr> []) = Inl ErrPerm \<and>
   snd (Machiner \<lparr>srv = \<lparr>state = 0\<rparr>,
                  resources = [(''1'', \<lparr>handle = 7, category = NotifyCat, stopError = None\<rparr>)],
                  entity = User ''user-admin''\<rparr> [])
     = \<lparr>srv = \<lparr>state = 0\<rparr>,
        resources = [(''1'', \<lparr>handle = 7, category = NotifyCat, stopError = None\<rparr>)],
        entity = User ''user-admin''\<rparr> \<and>
   fst (AllWatcher \<lparr>srv = \<lparr>state = 0\<rparr>,
                  resources = [(''1'', \<lparr>handle = 7, category = NotifyCat, stopError = None\<rparr>)],
                  entity = User ''user-admin''\<rparr> ''1'') = Inl ErrUnknownWatcher \<and>
   snd (AllWatcher \<lparr>srv = \<lparr>state = 0\<rparr>,
                  resources = [(''1'', \<lparr>handle = 7, category = NotifyCat, stopError = None\<rparr>)],
                  entity = User ''user-admin''\<rparr> ''1'')
     = \<lparr>srv = \<lparr>state = 0\<rparr>,
        resources = [(''1'', \<lparr>handle = 7, category = NotifyCat, stopError = None\<rparr>)],
        entity = User ''user-admin''\<rparr> \<and>
   fst (Deployer \<lparr>srv = \<lparr>state = 0\<rparr>,
                  resources = [(''1'', \<lparr>handle = 7, category = NotifyCat, stopError = None\<rparr>)],
                  entity = User ''user-admin''\<rparr> ''1'') = Inl ErrBadId \<and>
   snd (Deployer \<lparr>srv = \<lparr>state = 0\<rparr>,
                  resources = [(''1'', \<lparr>handle = 7, category = NotifyCat, stopError = None\<rparr>)],
                  entity = User ''user-admin''\<rparr> ''1'')
     = \<lparr>srv = \<lparr>state = 0\<rparr>,
        resources = [(''1'', \<lparr>handle = 7, category = NotifyCat, stopError = None\<rparr>)],
        entity = User ''user-admin''\<rparr>"
proof -
  let ?r = "\<lparr>srv = \<lparr>state = 0\<rparr>,
             resources = [(''1'', \<lparr>handle = 7, category = NotifyCat, stopError = None\<rparr>)],
             entity = User ''user-admin''\<rparr>"
  have m: "fst (Machiner ?r []) = Inl ErrPerm"
    by (simp add: Machiner_def NewMachinerAPI_def authorizer_def AuthClient_def)
  have a: "fst (AllWatcher ?r ''1'') = Inl ErrUnknownWatcher"
    by (simp add: AllWatcher_cases Get_def)
  have d: "fst (Deployer ?r ''1'') = Inl ErrBadId"
    by (simp add: Deployer_def)
  have m': "snd (Machiner ?r []) = ?r"
    by (rule accessor_failure_frame [of ?r "[]" ErrPerm, THEN conjunct1, THEN mp, OF m])
  have a': "snd (AllWatcher ?r ''1'') = ?r"
    by (rule accessor_failure_frame [of ?r "''1''" ErrUnknownWatcher,
        THEN conjunct2, THEN conjunct2, THEN conjunct2, THEN conjunct2, THEN conjunct2,
        THEN conjunct2, THEN mp, OF a])
  have d': "snd (Deployer ?r ''1'') = ?r"
    by (rule accessor_failure_frame [of ?r "''1''" ErrBadId,
        THEN conjunct2, THEN conjunct2, THEN conjunct1, THEN mp, OF d])
  from m m' a a' d d' show ?thesis by (intro conjI)
qed

subsection \<open>Teardown\<close>

text \<open>Draining stops exactly the entries of the registry, on top of what was stopped.\<close>

lemma stopEach_stopped:
  "set (stopped (stopEach es w)) = (\<lambda>e. handle (snd e)) ` set es \<union> set (stopped w)"
  by (induction es arbitrary: w) (auto simp: Stop_def split: option.splits)

text \<open>One teardown, evaluated: the first stop fails, and the second is still made.\<close>

lemma Kill_example:
  "Kill \<lparr>srv = \<lparr>state = 0\<rparr>,
       resources = [(''1'', \<lparr>handle = 7, category = NotifyCat,
                             stopError = Some (ErrOther ''boom'')\<rparr>),
                    (''2'', \<lparr>handle = 8, category = StringsCat, stopError = None\<rparr>)],
       entity = Machine ''machine-0'' [JobHostUnits]\<rparr>
      \<lparr>stopped = [], logged = []\<rparr>
   = (\<lparr>srv = \<lparr>state = 0\<rparr>, resources = [],
       entity = Machine ''machine-0'' [JobHostUnits]\<rparr>,
      \<lparr>stopped = [8, 7], logged = [ErrOther ''boom'']\<rparr>)"
  by (simp add: Kill_def StopAll_def NewResources_def Stop_def)

text \<open>
  C6. Kill stops every resource registered in the root's registry. After Kill the
  registry is empty, so no id is tracked and every lookup misses, and no resource that
  was registered is still running: its Stop has been called. This holds whatever the
  individual stops return, so also when some of them fail. Nothing else of the root
  changes.
\<close>

theorem Kill_stops_all:
  "resources (fst (Kill r w)) = [] \<and>
   (\<forall>x. Get (resources (fst (Kill r w))) x = None) \<and>
   (\<forall>e \<in> set (resources r). \<not> running (snd (Kill r w)) (snd e)) \<and>
   srv (fst (Kill r w)) = srv r \<and>
   entity (fst (Kill r w)) = entity r"
  by (simp add: Kill_def StopAll_def NewResources_def Get_def running_def stopEach_stopped)

theorem Kill_stops_all_witness:
  "resources (fst (Kill
      \<lparr>srv = \<lparr>state = 0\<rparr>,
       resources = [(''1'', \<lparr>handle = 7, category = NotifyCat,
                             stopError = Some (ErrOther ''boom'')\<rparr>),
                    (''2'', \<lparr>handle = 8, category = StringsCat, stopError = None\<rparr>)],
       entity = Machine ''machine-0'' [JobHostUnits]\<rparr>
      \<lparr>stopped = [], logged = []\<rparr>)) = [] \<and>
   \<not> running (snd (Kill
      \<lparr>srv = \<lparr>state = 0\<rparr>,
       resources = [(''1'', \<lparr>handle = 7, category = NotifyCat,
                             stopError = Some (ErrOther ''boom'')\<rparr>),
                    (''2'', \<lparr>handle = 8, category = StringsCat, stopError = None\<rparr>)],
       entity = Machine ''machine-0'' [JobHostUnits]\<rparr>
      \<lparr>stopped = [], logged = []\<rparr>))
     \<lparr>handle = 7, category = NotifyCat, stopError = Some (ErrOther ''boom'')\<rparr> \<and>
   \<not> running (snd (Kill
      \<lparr>srv = \<lparr>state = 0\<rparr>,
       resources = [(''1'', \<lparr>handle = 7, category = NotifyCat,
                             stopError = Some (ErrOther ''boom'')\<rparr>),
                    (''2'', \<lparr>handle = 8, category = StringsCat, stopError = None\<rparr>)],
       entity = Machine ''machine-0'' [JobHostUnits]\<rparr>
      \<lparr>stopped = [], logged = []\<rparr>))
     \<lparr>handle = 8, category = StringsCat, stopError = None\<rparr>"
proof -
  let ?x = "\<lparr>handle = 7, category = NotifyCat, stopError = Some (ErrOther ''boom'')\<rparr>"
  let ?y = "\<lparr>handle = 8, category = StringsCat, stopError = None\<rparr>"
  let ?r = "\<lparr>srv = \<lparr>state = 0\<rparr>, resources = [(''1'', ?x), (''2'', ?y)],
             entity = Machine ''machine-0'' [JobHostUnits]\<rparr>"
  let ?w = "\<lparr>stopped = [], logged = []\<rparr>"
  note k = Kill_stops_all [of ?r ?w]
  have all: "\<forall>e \<in> set (resources ?r). \<not> running (snd (Kill ?r ?w)) (snd e)"
    using k by (elim conjE)
  have x: "(''1'', ?x) \<in> set (resources ?r)" by simp
  have y: "(''2'', ?y) \<in> set (resources ?r)" by simp
  have nx: "\<not> running (snd (Kill ?r ?w)) ?x"
    using all [THEN bspec, OF x] by simp
  have ny: "\<not> running (snd (Kill ?r ?w)) ?y"
    using all [THEN bspec, OF y] by simp
  from k [THEN conjunct1] nx ny show ?thesis by (intro conjI)
qed

subsection \<open>Identifier check and role gate of the agent facades\<close>

text \<open>
  A facade accessor succeeds only on the empty id and for an agent: the id is checked by
  the accessor, the role by the constructor it then calls.
\<close>

lemma facade_success_cases:
  "fst (Machiner r x) = Inr f \<Longrightarrow> x = [] \<and> isAgent (entity r)"
  "fst (MachineAgent r x) = Inr f \<Longrightarrow> x = [] \<and> isAgent (entity r)"
  "fst (Deployer r x) = Inr f \<Longrightarrow> x = [] \<and> isAgent (entity r)"
  "fst (Upgrader r x) = Inr f \<Longrightarrow> x = [] \<and> isAgent (entity r)"
  by (auto simp: Machiner_def MachineAgent_def Deployer_def Upgrader_def
      NewMachinerAPI_def NewAgentAPI_def NewDeployerAPI_def NewUpgraderAPI_def
      authorizer_def AuthClient_def split: if_splits)

text \<open>
  C7. For an agent entity, an agent-only facade accessor called with a non-empty
  placeholder id returns bad identifier. The identifier check does not depend on the
  role gate: it comes first, and a client gets the same error. Both conditions are needed
  for success: an accessor that returns a facade was called with the empty id by an
  agent.
\<close>

theorem agent_facade_id_and_role:
  "(isAgent (entity r) \<and> x \<noteq> [] \<longrightarrow>
      fst (Machiner r x) = Inl ErrBadId \<and> fst (MachineAgent r x) = Inl ErrBadId \<and>
      fst (Deployer r x) = Inl ErrBadId \<and> fst (Upgrader r x) = Inl ErrBadId) \<and>
   (\<not> isAgent (entity r) \<and> x \<noteq> [] \<longrightarrow>
      fst (Machiner r x) = Inl ErrBadId \<and> fst (MachineAgent r x) = Inl ErrBadId \<and>
      fst (Deployer r x) = Inl ErrBadId \<and> fst (Upgrader r x) = Inl ErrBadId) \<and>
   ((\<exists>f. fst (Machiner r x) = Inr f \<or> fst (MachineAgent r x) = Inr f \<or>
         fst (Deployer r x) = Inr f \<or> fst (Upgrader r x) = Inr f) \<longrightarrow>
      x = [] \<and> isAgent (entity r))"
proof (intro conjI impI)
  assume "\<exists>f. fst (Machiner r x) = Inr f \<or> fst (MachineAgent r x) = Inr f \<or>
         fst (Deployer r x) = Inr f \<or> fst (Upgrader r x) = Inr f"
  then obtain f where "fst (Machiner r x) = Inr f \<or> fst (MachineAgent r x) = Inr f \<or>
         fst (Deployer r x) = Inr f \<or> fst (Upgrader r x) = Inr f" ..
  then have both: "x = [] \<and> isAgent (entity r)"
    using facade_success_cases by blast
  from both show "x = []" ..
  from both show "isAgent (entity r)" ..
qed (simp_all add: Machiner_def MachineAgent_def Deployer_def Upgrader_def)

theorem agent_facade_id_and_role_witness:
  "fst (Machiner (newSrvRoot \<lparr>state = 0\<rparr> (Machine ''machine-0'' [JobHostUnits])) ''nonempty'')
     = Inl ErrBadId \<and>
   fst (Machiner (newSrvRoot \<lparr>state = 0\<rparr> (User ''user-admin'')) ''nonempty'')
     = Inl ErrBadId \<and>
   \<not> isl (fst (Machiner (newSrvRoot \<lparr>state = 0\<rparr> (Machine ''machine-0'' [JobHostUnits])) [])) \<and>
   isAgent (entity (newSrvRoot \<lparr>state = 0\<rparr> (Machine ''machine-0'' [JobHostUnits])))"
proof -
  let ?a = "newSrvRoot \<lparr>state = 0\<rparr> (Machine ''machine-0'' [JobHostUnits])"
  let ?c = "newSrvRoot \<lparr>state = 0\<rparr> (User ''user-admin'')"
  have ag: "isAgent (entity ?a) \<and> ''nonempty'' \<noteq> []"
    by (simp add: newSrvRoot_def)
  have cl: "\<not> isAgent (entity ?c) \<and> ''nonempty'' \<noteq> []"
    by (simp add: newSrvRoot_def)
  have ok: "\<exists>f. fst (Machiner ?a []) = Inr f"
    by (simp add: Machiner_def NewMachinerAPI_def authorizer_def AuthClient_def newSrvRoot_def)
  then have ok': "\<exists>f. fst (Machiner ?a []) = Inr f \<or> fst (MachineAgent ?a []) = Inr f \<or>
         fst (Deployer ?a []) = Inr f \<or> fst (Upgrader ?a []) = Inr f"
    by blast
  have 1: "fst (Machiner ?a ''nonempty'') = Inl ErrBadId"
    using agent_facade_id_and_role [of ?a "''nonempty''", THEN conjunct1, THEN mp, OF ag]
    by (rule conjunct1)
  have 2: "fst (Machiner ?c ''nonempty'') = Inl ErrBadId"
    using agent_facade_id_and_role [of ?c "''nonempty''", THEN conjunct2, THEN conjunct1,
        THEN mp, OF cl]
    by (rule conjunct1)
  have 3: "isAgent (entity ?a)"
    using agent_facade_id_and_role [of ?a "[]", THEN conjunct2, THEN conjunct2, THEN mp, OF ok']
    by (rule conjunct2)
  from ok have 4: "\<not> isl (fst (Machiner ?a []))"
    by auto
  from 1 2 4 3 show ?thesis by (intro conjI)
qed

end
